theory Spec2Isabelle
  imports Complex_Main
begin

section \<open>Data model of the session controller (App component)\<close>

text \<open>
  The component keeps React state (\<open>isActive\<close>, \<open>isConnecting\<close>, \<open>currentLesson\<close>,
  \<open>transcriptions\<close>, \<open>trackingMode\<close>) and refs (\<open>sessionRef\<close>, \<open>audioContextRef\<close>,
  \<open>sourcesRef\<close>, \<open>nextStartTimeRef\<close>, \<open>frameIntervalRef\<close>). All handlers run on the single event-loop
  thread, so each handler is a function from the state before to the state after.
  Handles of browser objects (session, timer, buffer source node, media stream) are natural
  numbers, and \<open>currentLesson\<close> is the position of the chosen lesson in \<open>LESSONS\<close>.
  Times of the output clock and buffer durations are JavaScript numbers, modelled as reals. The calls the handlers make on browser objects are recorded in log fields, in
  call order, so that "was closed", "was stopped", "was sent" can be stated.
\<close>

datatype speaker = user | ai

record TranscriptionItem =
  item_text :: string
  item_type :: speaker
  item_timestamp :: int

datatype TrackingMode = digital | physical

record app =
  isActive :: bool
  isConnecting :: bool
  currentLesson :: nat
  transcriptions :: "TranscriptionItem list"
  trackingMode :: TrackingMode
  sessionRef :: "nat option"
  audioContextRef :: bool
  sourcesRef :: "nat list"
  nextStartTimeRef :: real
  frameIntervalRef :: "nat option"
  closeCalls :: "nat list"
  clearIntervalCalls :: "nat list"
  startCalls :: "(nat \<times> real) list"
  stopCalls :: "nat list"
  nodeCount :: nat
  micStreams :: "nat list"
  connectCalls :: nat
  sendCalls :: "(nat \<times> string) list"
  consoleErrors :: "string list"

text \<open>
  \<open>sourcesRef\<close> is a JavaScript \<open>Set\<close>: it iterates in insertion order and holds each
  node once. \<open>closeCalls\<close>, \<open>clearIntervalCalls\<close>, \<open>stopCalls\<close> list the handles on
  which \<open>close()\<close>, \<open>clearInterval\<close>, \<open>stop()\<close> were called; \<open>startCalls\<close> lists
  the calls \<open>source.start(when)\<close>; \<open>nodeCount\<close> numbers the nodes made by
  \<open>createBufferSource\<close>; \<open>micStreams\<close> lists the microphone streams obtained from
  \<open>getUserMedia\<close> whose tracks have not been stopped; \<open>connectCalls\<close> counts the calls
  of \<open>ai.live.connect\<close>; \<open>sendCalls\<close> lists the frames passed to
  \<open>sendRealtimeInput\<close> with the session handle they were sent on; \<open>consoleErrors\<close>
  lists the messages given to \<open>console.error\<close>.
\<close>

definition initial :: app where
  "initial = \<lparr> isActive = False, isConnecting = False, currentLesson = 0,
     transcriptions = [],
     trackingMode = digital, sessionRef = None, audioContextRef = False,
     sourcesRef = [], nextStartTimeRef = 0, frameIntervalRef = None,
     closeCalls = [], clearIntervalCalls = [], startCalls = [], stopCalls = [],
     nodeCount = 0, micStreams = [], connectCalls = 0, sendCalls = [],
     consoleErrors = [] \<rparr>"

subsection \<open>JavaScript helpers\<close>

text \<open>\<open>xs.slice(-n)\<close>: the last \<open>n\<close> elements, all of them when there are fewer.\<close>

definition slice_last :: "nat \<Rightarrow> 'a list \<Rightarrow> 'a list" where
  "slice_last n xs = drop (length xs - n) xs"

text \<open>\<open>Set.add\<close> and \<open>Set.delete\<close> on an insertion-ordered set.\<close>

definition set_add :: "'a \<Rightarrow> 'a list \<Rightarrow> 'a list" where
  "set_add x xs = (if x \<in> set xs then xs else xs @ [x])"

definition set_delete :: "'a \<Rightarrow> 'a list \<Rightarrow> 'a list" where
  "set_delete x xs = removeAll x xs"

text \<open>Truthiness of a nullable number (\<open>0\<close> and \<open>null\<close> are falsy) and of a nullable string.\<close>

definition truthy_num :: "nat option \<Rightarrow> bool" where
  "truthy_num v = (case v of None \<Rightarrow> False | Some n \<Rightarrow> n \<noteq> 0)"

definition truthy_str :: "string option \<Rightarrow> bool" where
  "truthy_str v = (case v of None \<Rightarrow> False | Some t \<Rightarrow> t \<noteq> [])"

section \<open>Transcript sink\<close>

text \<open>
  \<open>addTranscription(text, type)\<close>:
  \<open>setTranscriptions(prev => [...prev, {text, type, timestamp: Date.now()}].slice(-15))\<close>.
  The reading of \<open>Date.now()\<close> is the argument \<open>ts\<close>.
\<close>

definition addTranscription :: "string \<Rightarrow> speaker \<Rightarrow> int \<Rightarrow> app \<Rightarrow> app" where
  "addTranscription t k ts s =
     s\<lparr>transcriptions :=
         slice_last 15 (transcriptions s @
           [\<lparr>item_text = t, item_type = k, item_timestamp = ts\<rparr>])\<rparr>"

text \<open>A sequence of appends, each given as (text, type, time of the append).\<close>

fun entry :: "string \<times> speaker \<times> int \<Rightarrow> TranscriptionItem" where
  "entry (t, k, ts) = \<lparr>item_text = t, item_type = k, item_timestamp = ts\<rparr>"

fun addAll :: "(string \<times> speaker \<times> int) list \<Rightarrow> app \<Rightarrow> app" where
  "addAll [] s = s"
| "addAll ((t, k, ts) # es) s = addAll es (addTranscription t k ts s)"

section \<open>Playback scheduler and inbound messages\<close>

text \<open>
  An inbound message, as far as the handler reads it: \<open>msg.serverContent\<close> may be absent;
  in it the objects \<open>inputTranscription\<close> and \<open>outputTranscription\<close> (given by their
  \<open>text\<close>), \<open>modelTurn\<close> and the flag \<open>interrupted\<close> may be absent (an absent flag is
  falsy); a model turn may lack \<open>parts\<close>, a part may lack \<open>inlineData\<close>, and inline data
  may lack \<open>data\<close> (the selector \<open>inlineData_data\<close>).
\<close>

datatype inline_data = InlineData (inlineData_data: "string option")

datatype part = Part (inlineData: "inline_data option")

datatype model_turn = ModelTurn (parts: "part list option")

record server_content =
  inputTranscription :: "string option"
  outputTranscription :: "string option"
  modelTurn :: "model_turn option"
  interrupted :: bool

record server_msg =
  serverContent :: "server_content option"

datatype js_error = TypeError

text \<open>
  \<open>const audioData = msg.serverContent?.modelTurn?.parts[0]?.inlineData?.data;\<close>
  An absent \<open>serverContent\<close> or \<open>modelTurn\<close> ends the chain with \<open>undefined\<close>. There is
  no \<open>?.\<close> before \<open>[0]\<close>: a model turn without \<open>parts\<close> raises a TypeError. Indexing
  an empty array gives \<open>undefined\<close>, which the following \<open>?.\<close> passes on.
\<close>

definition audioData :: "server_msg \<Rightarrow> js_error + string option" where
  "audioData msg =
     (case serverContent msg of
        None \<Rightarrow> Inr None
      | Some content \<Rightarrow>
          (case modelTurn content of
             None \<Rightarrow> Inr None
           | Some turn \<Rightarrow>
               (case parts turn of
                  None \<Rightarrow> Inl TypeError
                | Some ps \<Rightarrow>
                    Inr (case ps of
                           [] \<Rightarrow> None
                         | p # rest \<Rightarrow>
                             (case inlineData p of
                                None \<Rightarrow> None
                              | Some inline \<Rightarrow> inlineData_data inline)))))"

text \<open>
  The block guarded by \<open>if (audioData)\<close>. \<open>now\<close> is the reading of
  \<open>outputCtx.currentTime\<close>, \<open>d\<close> is \<open>buffer.duration\<close> of the decoded buffer.
  \<^verbatim>\<open>
  nextStartTimeRef.current = Math.max(nextStartTimeRef.current, outputCtx.currentTime);
  const buffer = await decodeAudioData(decode(audioData), outputCtx, 24000, 1);
  const source = outputCtx.createBufferSource();
  ...
  source.start(nextStartTimeRef.current);
  nextStartTimeRef.current += buffer.duration;
  sourcesRef.current.add(source);
  \<close>
  The handler is modelled as running to its end before the next one starts.
\<close>

definition enqueue :: "real \<Rightarrow> real \<Rightarrow> app \<Rightarrow> app" where
  "enqueue now d s =
     (let s1 = s\<lparr>nextStartTimeRef := max (nextStartTimeRef s) now\<rparr>;
          source = nodeCount s1;
          s2 = s1\<lparr>nodeCount := Suc (nodeCount s1)\<rparr>;
          s3 = s2\<lparr>startCalls := startCalls s2 @ [(source, nextStartTimeRef s2)]\<rparr>;
          s4 = s3\<lparr>nextStartTimeRef := nextStartTimeRef s3 + d\<rparr>
      in s4\<lparr>sourcesRef := set_add source (sourcesRef s4)\<rparr>)"

text \<open>The listener \<open>source.addEventListener('ended', () => sourcesRef.current.delete(source))\<close>.\<close>

definition onended :: "nat \<Rightarrow> app \<Rightarrow> app" where
  "onended source s = s\<lparr>sourcesRef := set_delete source (sourcesRef s)\<rparr>"

text \<open>
  The block guarded by \<open>if (msg.serverContent?.interrupted)\<close>:
  \<^verbatim>\<open>
  sourcesRef.current.forEach(s => s.stop());
  sourcesRef.current.clear();
  nextStartTimeRef.current = 0;
  \<close>
\<close>

definition interruptAll :: "app \<Rightarrow> app" where
  "interruptAll s =
     (let s1 = s\<lparr>stopCalls := stopCalls s @ sourcesRef s\<rparr>;
          s2 = s1\<lparr>sourcesRef := []\<rparr>
      in s2\<lparr>nextStartTimeRef := 0\<rparr>)"

text \<open>
  \<open>onmessage\<close>. \<open>ts\<close> is the reading of \<open>Date.now()\<close>, \<open>now\<close> that of the output
  clock, \<open>d\<close> the duration of the buffer decoded from the message's audio (read only when
  the message carries audio; decoding is taken to succeed). The result is the error the
  handler raised, if any, and the state it leaves. The transcript lines run before the
  chain that reads the audio, so their effect stays when that chain raises; the enqueue
  and interruption blocks are then not reached.
  \<^verbatim>\<open>
  if (msg.serverContent?.inputTranscription) {
    addTranscription(msg.serverContent.inputTranscription.text, 'user'); }
  if (msg.serverContent?.outputTranscription) {
    addTranscription(msg.serverContent.outputTranscription.text, 'ai'); }
  const audioData = msg.serverContent?.modelTurn?.parts[0]?.inlineData?.data;
  if (audioData) { ... }
  if (msg.serverContent?.interrupted) { ... }
  \<close>
\<close>

definition onmessage ::
  "int \<Rightarrow> real \<Rightarrow> real \<Rightarrow> server_msg \<Rightarrow> app \<Rightarrow> js_error option \<times> app" where
  "onmessage ts now d msg s =
     (let s1 = (case Option.bind (serverContent msg) inputTranscription of
                  Some t \<Rightarrow> addTranscription t user ts s | None \<Rightarrow> s);
          s2 = (case Option.bind (serverContent msg) outputTranscription of
                  Some t \<Rightarrow> addTranscription t ai ts s1 | None \<Rightarrow> s1)
      in case audioData msg of
           Inl err \<Rightarrow> (Some err, s2)
         | Inr a \<Rightarrow>
             (let s3 = (if truthy_str a then enqueue now d s2 else s2);
                  s4 = (if (case serverContent msg of
                              None \<Rightarrow> False | Some content \<Rightarrow> interrupted content)
                        then interruptAll s3 else s3)
              in (None, s4)))"

text \<open>A run of enqueues, each given as (clock reading, buffer duration).\<close>

fun enqueueAll :: "(real \<times> real) list \<Rightarrow> app \<Rightarrow> app" where
  "enqueueAll [] s = s"
| "enqueueAll ((now, d) # bs) s = enqueueAll bs (enqueue now d s)"

text \<open>
  "Faster than real time": at each enqueue of the run the clock reading is at or before the
  cursor the scheduler holds at that moment.
\<close>

fun fasterThanRealTime :: "(real \<times> real) list \<Rightarrow> app \<Rightarrow> bool" where
  "fasterThanRealTime [] s = True"
| "fasterThanRealTime ((now, d) # bs) s =
     (now \<le> nextStartTimeRef s \<and> fasterThanRealTime bs (enqueue now d s))"

text \<open>The start times passed to \<open>source.start\<close> between state \<open>s\<close> and a later state \<open>s'\<close>.\<close>

definition newStarts :: "app \<Rightarrow> app \<Rightarrow> real list" where
  "newStarts s s' = map snd (drop (length (startCalls s)) (startCalls s'))"

text \<open>
  The schedule the specification asks for: the first buffer at \<open>c\<close>, each next one where the
  previous one ends.
\<close>

fun backToBack :: "real \<Rightarrow> real list \<Rightarrow> real list" where
  "backToBack c [] = []"
| "backToBack c (d # ds) = c # backToBack (c + d) ds"

section \<open>Session lifecycle\<close>

text \<open>
  \<^verbatim>\<open>
  const stopSession = () => {
    if (sessionRef.current) { sessionRef.current.close(); sessionRef.current = null; }
    if (frameIntervalRef.current) {
      window.clearInterval(frameIntervalRef.current); frameIntervalRef.current = null; }
    sourcesRef.current.forEach(s => s.stop());
    sourcesRef.current.clear();
    setIsActive(false);
  };
  \<close>
\<close>

definition stopSession :: "app \<Rightarrow> app" where
  "stopSession s =
     (let s1 = (case sessionRef s of
                  Some h \<Rightarrow> s\<lparr>closeCalls := closeCalls s @ [h], sessionRef := None\<rparr>
                | None \<Rightarrow> s);
          s2 = (if truthy_num (frameIntervalRef s1)
                then s1\<lparr>clearIntervalCalls :=
                          clearIntervalCalls s1 @ (case frameIntervalRef s1 of
                                                     Some t \<Rightarrow> [t] | None \<Rightarrow> []),
                        frameIntervalRef := None\<rparr>
                else s1);
          s3 = s2\<lparr>stopCalls := stopCalls s2 @ sourcesRef s2\<rparr>;
          s4 = s3\<lparr>sourcesRef := []\<rparr>
      in s4\<lparr>isActive := False\<rparr>)"

text \<open>An awaited promise settles with a value or is rejected with an error.\<close>

datatype 'a outcome = Resolved 'a | Rejected string

text \<open>
  The \<open>catch\<close> block of \<open>startSession\<close>:
  \<open>console.error('Failed to start session:', err); setIsConnecting(false);\<close>
\<close>

definition startFailed :: "string \<Rightarrow> app \<Rightarrow> app" where
  "startFailed err s =
     (let s1 = s\<lparr>consoleErrors := consoleErrors s @ [''Failed to start session: '' @ err]\<rparr>
      in s1\<lparr>isConnecting := False\<rparr>)"

text \<open>
  \<open>startSession\<close>, run without another handler in between. \<open>mic\<close> is how
  \<open>getUserMedia({audio: true})\<close> settles (the stream's handle), \<open>conn\<close> how the promise of
  \<open>ai.live.connect\<close> settles (the session's handle). The callbacks given to \<open>connect\<close>
  are the handlers \<open>onopen\<close>, \<open>onmessage\<close>, \<open>onerror\<close>, \<open>onclose\<close> below.
  The constructors of the client and of the two audio contexts are taken to succeed.
  \<^verbatim>\<open>
  setIsConnecting(true);
  try {
    if (!audioContextRef.current) { audioContextRef.current = {input: ..., output: ...}; }
    const stream = await navigator.mediaDevices.getUserMedia({ audio: true });
    const sessionPromise = ai.live.connect({...});
    sessionRef.current = await sessionPromise;
  } catch (err) { console.error('Failed to start session:', err); setIsConnecting(false); }
  \<close>
\<close>

definition startSession :: "nat outcome \<Rightarrow> nat outcome \<Rightarrow> app \<Rightarrow> app" where
  "startSession mic conn s =
     (let s1 = s\<lparr>isConnecting := True\<rparr>;
          s2 = (if \<not> audioContextRef s1 then s1\<lparr>audioContextRef := True\<rparr> else s1)
      in case mic of
           Rejected err \<Rightarrow> startFailed err s2
         | Resolved stream \<Rightarrow>
             (let s3 = s2\<lparr>micStreams := micStreams s2 @ [stream]\<rparr>;
                  s4 = s3\<lparr>connectCalls := Suc (connectCalls s3)\<rparr>
              in case conn of
                   Rejected err \<Rightarrow> startFailed err s4
                 | Resolved h \<Rightarrow> s4\<lparr>sessionRef := Some h\<rparr>))"

text \<open>
  \<open>onopen\<close>: \<open>setIsConnecting(false); setIsActive(true);\<close>, the wiring of the audio pump,
  and \<open>frameIntervalRef.current = window.setInterval(...)\<close>, where \<open>tid\<close> is the handle
  that \<open>setInterval\<close> returns.
\<close>

definition onopen :: "nat \<Rightarrow> app \<Rightarrow> app" where
  "onopen tid s =
     (let s1 = s\<lparr>isConnecting := False\<rparr>;
          s2 = s1\<lparr>isActive := True\<rparr>
      in s2\<lparr>frameIntervalRef := Some tid\<rparr>)"



text \<open>
  The start/stop button: \<open>onClick={isActive ? stopSession : startSession}\<close> and
  \<open>disabled={isConnecting}\<close>. It is the only caller of \<open>startSession\<close>.
\<close>

definition sessionButton :: "nat outcome \<Rightarrow> nat outcome \<Rightarrow> app \<Rightarrow> app" where
  "sessionButton mic conn s =
     (if isConnecting s then s
      else if isActive s then stopSession s
      else startSession mic conn s)"

text \<open>
  The mode buttons:
  \<open>onClick={() => { if (isActive) stopSession(); setTrackingMode('digital'); }}\<close>
\<close>

definition selectMode :: "TrackingMode \<Rightarrow> app \<Rightarrow> app" where
  "selectMode mode s =
     (let s1 = (if isActive s then stopSession s else s)
      in s1\<lparr>trackingMode := mode\<rparr>)"

text \<open>The lesson buttons: \<open>onClick={() => setCurrentLesson(lesson)}\<close>.\<close>

definition selectLesson :: "nat \<Rightarrow> app \<Rightarrow> app" where
  "selectLesson lesson s = s\<lparr>currentLesson := lesson\<rparr>"

text \<open>
  What the user sees. The markup that \<open>App\<close> returns reads the React state only
  (\<open>isActive\<close>, \<open>isConnecting\<close>, \<open>currentLesson\<close>, \<open>transcriptions\<close>,
  \<open>trackingMode\<close>) and the constant \<open>LESSONS\<close>; no ref and nothing written to the
  console is rendered.
\<close>

definition rendered :: "app \<Rightarrow> bool \<times> bool \<times> nat \<times> TranscriptionItem list \<times> TrackingMode" where
  "rendered s = (isActive s, isConnecting s, currentLesson s, transcriptions s, trackingMode s)"

section \<open>Frame sampler\<close>

text \<open>What \<open>getFrame\<close> can hand to the sampler: \<open>null\<close>, \<open>undefined\<close> or a string.\<close>

datatype jsval = Null | Undefined | Str string

definition truthy :: "jsval \<Rightarrow> bool" where
  "truthy v = (case v of Null \<Rightarrow> False | Undefined \<Rightarrow> False | Str t \<Rightarrow> t \<noteq> [])"

text \<open>\<open>str.split(c)\<close> for a one-character separator, and \<open>xs[i]\<close> on the resulting array.\<close>

fun split_char :: "char \<Rightarrow> string \<Rightarrow> string list" where
  "split_char c [] = [[]]"
| "split_char c (x # xs) =
     (if x = c then [] # split_char c xs
      else (case split_char c xs of
              [] \<Rightarrow> [[x]]
            | y # ys \<Rightarrow> (x # y) # ys))"

definition index_js :: "string list \<Rightarrow> nat \<Rightarrow> jsval" where
  "index_js xs i = (if i < length xs then Str (xs ! i) else Undefined)"

record video_el =
  videoWidth :: nat
  videoHeight :: nat

record canvas_el =
  canvas_width :: nat
  canvas_height :: nat
  has2d :: bool

text \<open>
  \<open>getFrame\<close> of \<open>CameraTracker\<close>. \<open>v\<close> and \<open>c\<close> are \<open>videoRef.current\<close> and
  \<open>canvasRef.current\<close>; \<open>has2d\<close> says whether \<open>canvas.getContext('2d')\<close> gives a
  context; \<open>url\<close> is the string that \<open>canvas.toDataURL('image/jpeg', 0.5)\<close> returns after
  \<open>drawImage\<close>. The result is the returned value and the canvas element as resized.
  \<^verbatim>\<open>
  if (!videoRef.current || !canvasRef.current) return null;
  if (canvas.width !== video.videoWidth) {
    canvas.width = video.videoWidth; canvas.height = video.videoHeight; }
  const ctx = canvas.getContext('2d');
  if (ctx) {
    ctx.drawImage(video, 0, 0, canvas.width, canvas.height);
    return canvas.toDataURL('image/jpeg', 0.5).split(',')[1];
  }
  return null;
  \<close>
\<close>

definition CameraTracker_getFrame ::
  "string \<Rightarrow> video_el option \<Rightarrow> canvas_el option \<Rightarrow> jsval \<times> canvas_el option" where
  "CameraTracker_getFrame url v c =
     (case v of
        None \<Rightarrow> (Null, c)
      | Some video \<Rightarrow>
          (case c of
             None \<Rightarrow> (Null, None)
           | Some canvas \<Rightarrow>
               (let canvas' =
                      (if canvas_width canvas \<noteq> videoWidth video
                       then canvas\<lparr>canvas_width := videoWidth video,
                                   canvas_height := videoHeight video\<rparr>
                       else canvas)
                in if has2d canvas'
                   then (index_js (split_char CHR '','' url) 1, Some canvas')
                   else (Null, Some canvas'))))"

text \<open>
  \<open>getFrame\<close> of \<open>DrawingCanvas\<close>:
  \<^verbatim>\<open>
  if (!canvasRef.current) return null;
  return canvasRef.current.toDataURL('image/jpeg', 0.6).split(',')[1];
  \<close>
\<close>

definition DrawingCanvas_getFrame :: "string \<Rightarrow> canvas_el option \<Rightarrow> jsval" where
  "DrawingCanvas_getFrame url c =
     (case c of None \<Rightarrow> Null | Some canvas \<Rightarrow> index_js (split_char CHR '','' url) 1)"

text \<open>
  The callback given to \<open>setInterval\<close>. \<open>mode\<close> is the \<open>trackingMode\<close> the callback
  closed over; \<open>canvasFrame\<close> and \<open>cameraFrame\<close> are \<open>None\<close> when \<open>canvasRef.current\<close>,
  \<open>cameraRef.current\<close> is null and otherwise what that component's \<open>getFrame()\<close> returns.
  \<^verbatim>\<open>
  const frame = trackingMode === 'digital'
    ? canvasRef.current?.getFrame() : cameraRef.current?.getFrame();
  if (frame) {
    sessionRef.current?.sendRealtimeInput({ media: { data: frame, mimeType: 'image/jpeg' } });
  }
  \<close>
\<close>

definition polledFrame :: "TrackingMode \<Rightarrow> jsval option \<Rightarrow> jsval option \<Rightarrow> jsval" where
  "polledFrame mode canvasFrame cameraFrame =
     (case (if mode = digital then canvasFrame else cameraFrame) of
        None \<Rightarrow> Undefined
      | Some f \<Rightarrow> f)"

definition frameTick :: "jsval \<Rightarrow> app \<Rightarrow> app" where
  "frameTick frame s =
     (if truthy frame
      then (case sessionRef s of
              None \<Rightarrow> s
            | Some h \<Rightarrow>
                s\<lparr>sendCalls := sendCalls s @
                     [(h, case frame of Str data \<Rightarrow> data | Null \<Rightarrow> [] | Undefined \<Rightarrow> [])]\<rparr>)
      else s)"

section \<open>A sample run\<close>

text \<open>
  A session that was started from the initial state (microphone stream 7, session 1), was
  opened (timer 4) and has received one audio buffer of 3 seconds at clock time 5.
\<close>

definition exampleActive :: app where
  "exampleActive = enqueue 5 3 (onopen 4 (startSession (Resolved 7) (Resolved 1) initial))"

text \<open>
  A message that carries only the interruption flag, and one that carries the flag and a
  model turn without \<open>parts\<close>.
\<close>

definition interruptMsg :: server_msg where
  "interruptMsg =
     \<lparr>serverContent = Some \<lparr>inputTranscription = None, outputTranscription = None,
                             modelTurn = None, interrupted = True\<rparr>\<rparr>"

definition interruptNoPartsMsg :: server_msg where
  "interruptNoPartsMsg =
     \<lparr>serverContent = Some \<lparr>inputTranscription = None, outputTranscription = None,
                             modelTurn = Some (ModelTurn None), interrupted = True\<rparr>\<rparr>"

text \<open>
  A video element that has no frame yet (its intrinsic size is 0 by 0) and a canvas element
  of the default size. The data URL of a canvas without pixels is \<open>data:,\<close>.
\<close>

definition videoNotReady :: video_el where
  "videoNotReady = \<lparr>videoWidth = 0, videoHeight = 0\<rparr>"

definition freshCanvas :: canvas_el where
  "freshCanvas = \<lparr>canvas_width = 300, canvas_height = 150, has2d = True\<rparr>"

section \<open>Transcript sink: retention\<close>

lemma slice_last_append_slice:
  "slice_last n (slice_last n xs @ ys) = slice_last n (xs @ ys)"
proof -
  have "length xs + length ys - (length xs - n + n) + (length xs - n)
          = length xs + length ys - n"
    by arith
  then show ?thesis by (simp add: slice_last_def)
qed

lemma transcriptions_addAll:
  "es \<noteq> [] \<Longrightarrow>
   transcriptions (addAll es s) = slice_last 15 (transcriptions s @ map entry es)"
proof (induction es arbitrary: s)
  case Nil
  then show ?case by simp
next
  case (Cons e es)
  obtain t k ts where e: "e = (t, k, ts)" by (cases e) auto
  show ?case
  proof (cases "es = []")
    case True
    then show ?thesis by (simp add: e addTranscription_def)
  next
    case False
    have "transcriptions (addAll (e # es) s)
            = slice_last 15 (transcriptions (addTranscription t k ts s) @ map entry es)"
      using Cons.IH [OF False] by (simp add: e)
    also have "\<dots> = slice_last 15 ((transcriptions s @ [entry e]) @ map entry es)"
      by (simp add: addTranscription_def e slice_last_append_slice)
    finally show ?thesis by simp
  qed
qed

text \<open>
  C7. Starting from the empty transcript, after any sequence of appends the sink holds
  exactly the last 15 appended entries (all of them when fewer were appended), in append
  order: the list of appended entries with its oldest \<open>length es - 15\<close> entries dropped.
  In particular it never holds more than 15.
\<close>

theorem transcript_retains_last_15:
  "transcriptions (addAll es initial) = drop (length es - 15) (map entry es)
   \<and> length (transcriptions (addAll es initial)) \<le> 15"
proof (cases "es = []")
  case True
  then show ?thesis by (simp add: initial_def)
next
  case False
  then have "transcriptions (addAll es initial) = slice_last 15 (map entry es)"
    by (simp add: transcriptions_addAll initial_def)
  then show ?thesis by (simp add: slice_last_def)
qed

section \<open>Playback scheduler: gapless scheduling\<close>

lemma enqueue_simps [simp]:
  "nextStartTimeRef (enqueue now d s) = max (nextStartTimeRef s) now + d"
  "startCalls (enqueue now d s) = startCalls s @ [(nodeCount s, max (nextStartTimeRef s) now)]"
  "nodeCount (enqueue now d s) = Suc (nodeCount s)"
  "sourcesRef (enqueue now d s) = set_add (nodeCount s) (sourcesRef s)"
  "stopCalls (enqueue now d s) = stopCalls s"
  by (simp_all add: enqueue_def Let_def)

lemma length_backToBack [simp]: "length (backToBack c ds) = length ds"
  by (induction ds arbitrary: c) auto

lemma backToBack_step:
  "Suc i < length ds \<Longrightarrow> backToBack c ds ! Suc i = backToBack c ds ! i + ds ! i"
proof (induction ds arbitrary: c i)
  case Nil
  then show ?case by simp
next
  case (Cons d ds)
  show ?case
  proof (cases i)
    case 0
    with Cons.prems show ?thesis by (cases ds) auto
  next
    case (Suc j)
    with Cons.prems have "Suc j < length ds" by simp
    from Cons.IH [OF this] show ?thesis by (simp add: Suc)
  qed
qed

lemma backToBack_lower:
  "\<forall>d\<in>set ds. 0 \<le> d \<Longrightarrow> x \<in> set (backToBack c ds) \<Longrightarrow> c \<le> x"
proof (induction ds arbitrary: c)
  case Nil
  then show ?case by simp
next
  case (Cons d ds)
  from Cons.prems have d: "0 \<le> d" and ds: "\<forall>d\<in>set ds. 0 \<le> d" by auto
  from Cons.prems(2) consider "x = c" | "x \<in> set (backToBack (c + d) ds)" by auto
  then show ?case
  proof cases
    case 1
    then show ?thesis by simp
  next
    case 2
    from Cons.IH [OF ds 2] d show ?thesis by simp
  qed
qed

lemma sorted_backToBack:
  "\<forall>d\<in>set ds. 0 \<le> d \<Longrightarrow> sorted (backToBack c ds)"
proof (induction ds arbitrary: c)
  case Nil
  then show ?case by simp
next
  case (Cons d ds)
  from Cons.prems have d: "0 \<le> d" and ds: "\<forall>d\<in>set ds. 0 \<le> d" by auto
  have "\<forall>x\<in>set (backToBack (c + d) ds). c \<le> x"
    using backToBack_lower [OF ds] d by fastforce
  with Cons.IH [OF ds] show ?case by simp
qed

lemma starts_enqueueAll:
  "fasterThanRealTime bs s \<Longrightarrow>
   map snd (startCalls (enqueueAll bs s))
     = map snd (startCalls s) @ backToBack (nextStartTimeRef s) (map snd bs)"
proof (induction bs arbitrary: s)
  case Nil
  then show ?case by simp
next
  case (Cons b bs)
  obtain now d where b: "b = (now, d)" by (cases b) auto
  from Cons.prems have le: "now \<le> nextStartTimeRef s"
    and rest: "fasterThanRealTime bs (enqueue now d s)" by (simp_all add: b)
  from le have m: "max (nextStartTimeRef s) now = nextStartTimeRef s" by simp
  show ?case using Cons.IH [OF rest] by (simp add: b m)
qed

lemma cursor_enqueueAll:
  "fasterThanRealTime bs s \<Longrightarrow>
   nextStartTimeRef (enqueueAll bs s) = nextStartTimeRef s + sum_list (map snd bs)"
proof (induction bs arbitrary: s)
  case Nil
  then show ?case by simp
next
  case (Cons b bs)
  obtain now d where b: "b = (now, d)" by (cases b) auto
  from Cons.prems have le: "now \<le> nextStartTimeRef s"
    and rest: "fasterThanRealTime bs (enqueue now d s)" by (simp_all add: b)
  from le have m: "max (nextStartTimeRef s) now = nextStartTimeRef s" by simp
  show ?case using Cons.IH [OF rest] by (simp add: b m)
qed

lemma newStarts_enqueueAll:
  assumes "fasterThanRealTime bs (enqueue now d s)"
  shows "newStarts s (enqueueAll ((now, d) # bs) s)
           = backToBack (max (nextStartTimeRef s) now) (d # map snd bs)"
proof -
  have "map snd (startCalls (enqueueAll ((now, d) # bs) s))
          = map snd (startCalls s) @ backToBack (max (nextStartTimeRef s) now) (d # map snd bs)"
    using starts_enqueueAll [OF assms] by simp
  then have "drop (length (startCalls s)) (map snd (startCalls (enqueueAll ((now, d) # bs) s)))
          = backToBack (max (nextStartTimeRef s) now) (d # map snd bs)"
    by simp
  then show ?thesis by (simp add: newStarts_def drop_map)
qed

text \<open>
  C1. Take any run of enqueues in which, after the first one, every enqueue happens while
  the output clock is at or before the cursor, with buffer durations that are not negative.
  Then the start times passed to \<open>source.start\<close> are the back-to-back schedule that begins
  at \<open>max cursor now\<close> of the first enqueue: there is one start per buffer, each start
  is the previous start plus the previous buffer's duration, the starts are non-decreasing,
  and the cursor ends at the first start plus the sum of all durations.
\<close>

theorem enqueue_back_to_back:
  assumes "fasterThanRealTime bs (enqueue now d s)"
    and "0 \<le> d" and "\<forall>b\<in>set bs. 0 \<le> snd b"
  shows "newStarts s (enqueueAll ((now, d) # bs) s)
           = backToBack (max (nextStartTimeRef s) now) (d # map snd bs)
     \<and> length (newStarts s (enqueueAll ((now, d) # bs) s)) = Suc (length bs)
     \<and> newStarts s (enqueueAll ((now, d) # bs) s) ! 0 = max (nextStartTimeRef s) now
     \<and> (\<forall>i. Suc i < Suc (length bs) \<longrightarrow>
           newStarts s (enqueueAll ((now, d) # bs) s) ! Suc i
             = newStarts s (enqueueAll ((now, d) # bs) s) ! i + (d # map snd bs) ! i)
     \<and> sorted (newStarts s (enqueueAll ((now, d) # bs) s))
     \<and> nextStartTimeRef (enqueueAll ((now, d) # bs) s)
         = max (nextStartTimeRef s) now + d + sum_list (map snd bs)"
proof -
  let ?st = "newStarts s (enqueueAll ((now, d) # bs) s)"
  let ?ds = "d # map snd bs"
  have eq: "?st = backToBack (max (nextStartTimeRef s) now) ?ds"
    by (rule newStarts_enqueueAll [OF assms(1)])
  have len: "length ?st = Suc (length bs)" unfolding eq by simp
  have first: "?st ! 0 = max (nextStartTimeRef s) now" unfolding eq by simp
  have step: "\<forall>i. Suc i < Suc (length bs) \<longrightarrow> ?st ! Suc i = ?st ! i + ?ds ! i"
  proof (intro allI impI)
    fix i assume "Suc i < Suc (length bs)"
    then have "Suc i < length ?ds" by simp
    from backToBack_step [OF this] show "?st ! Suc i = ?st ! i + ?ds ! i"
      by (simp only: eq)
  qed
  have nonneg: "\<forall>x\<in>set ?ds. 0 \<le> x" using assms(2,3) by auto
  have srt: "sorted ?st" unfolding eq by (rule sorted_backToBack [OF nonneg])
  have cur: "nextStartTimeRef (enqueueAll ((now, d) # bs) s)
         = max (nextStartTimeRef s) now + d + sum_list (map snd bs)"
    using cursor_enqueueAll [OF assms(1)] by simp
  from eq len first step srt cur show ?thesis by blast
qed

theorem enqueue_back_to_back_witness:
  "fasterThanRealTime [(2, 1), (3, 2)] (enqueue 2 1 initial)
   \<and> newStarts initial (enqueueAll [(2, 1), (2, 1), (3, 2)] initial) = [2, 3, 4]
   \<and> sorted (newStarts initial (enqueueAll [(2, 1), (2, 1), (3, 2)] initial))
   \<and> nextStartTimeRef (enqueueAll [(2, 1), (2, 1), (3, 2)] initial) = 6"
proof -
  have h: "fasterThanRealTime [(2, 1), (3, 2)] (enqueue 2 1 initial)"
    by (simp add: initial_def)
  have nn: "\<forall>b\<in>set [(2::real, 1::real), (3, 2)]. 0 \<le> snd b" by simp
  from enqueue_back_to_back [OF h _ nn] show ?thesis using h
    by (simp add: initial_def)
qed

section \<open>Playback scheduler: interruption\<close>

lemma interruptAll_simps [simp]:
  "nextStartTimeRef (interruptAll s) = 0"
  "sourcesRef (interruptAll s) = []"
  "stopCalls (interruptAll s) = stopCalls s @ sourcesRef s"
  "startCalls (interruptAll s) = startCalls s"
  "nodeCount (interruptAll s) = nodeCount s"
  by (simp_all add: interruptAll_def Let_def)

lemma addTranscription_simps [simp]:
  "nextStartTimeRef (addTranscription t k ts s) = nextStartTimeRef s"
  "sourcesRef (addTranscription t k ts s) = sourcesRef s"
  "stopCalls (addTranscription t k ts s) = stopCalls s"
  "startCalls (addTranscription t k ts s) = startCalls s"
  "nodeCount (addTranscription t k ts s) = nodeCount s"
  by (simp_all add: addTranscription_def)

lemma newStarts_enqueue:
  "newStarts s (enqueue now d s) = [max (nextStartTimeRef s) now]"
  by (simp add: newStarts_def)

text \<open>
  How the handler reaches the two blocks. When the chain that reads the audio returns, the
  handler completes, and a message with the flag runs the interruption block last. When
  the chain raises, the handler ends there: no buffer is started or stopped, and the live
  set and the cursor stay as they were, flag or no flag.
\<close>

lemma onmessage_returns:
  assumes "audioData msg = Inr a"
  shows "fst (onmessage ts now d msg s) = None"
    and "serverContent msg = Some content \<Longrightarrow> interrupted content \<Longrightarrow>
         \<exists>s3. snd (onmessage ts now d msg s) = interruptAll s3
              \<and> set (sourcesRef s) \<subseteq> set (sourcesRef s3)"
  using assms
  by (auto simp: onmessage_def Let_def set_add_def split: option.splits)

lemma onmessage_raises:
  assumes "audioData msg = Inl err"
  shows "fst (onmessage ts now d msg s) = Some err"
    and "sourcesRef (snd (onmessage ts now d msg s)) = sourcesRef s"
    and "stopCalls (snd (onmessage ts now d msg s)) = stopCalls s"
    and "startCalls (snd (onmessage ts now d msg s)) = startCalls s"
    and "nextStartTimeRef (snd (onmessage ts now d msg s)) = nextStartTimeRef s"
  using assms by (simp_all add: onmessage_def Let_def split: option.splits)

text \<open>
  In the sample run, a flagged message whose model turn has no \<open>parts\<close> raises and leaves
  the session as it was: the buffer keeps playing and the cursor stays at 8.
\<close>

lemma onmessage_no_parts_example:
  "onmessage 0 6 0 interruptNoPartsMsg exampleActive = (Some TypeError, exampleActive)"
  by (simp add: onmessage_def audioData_def interruptNoPartsMsg_def Let_def)

text \<open>
  C2 (as the code has it). When the interruption block runs, \<open>stop()\<close> is called on every
  buffer of the live set, in insertion order, the live set is emptied, and the cursor is
  set to 0, whatever the live set and the cursor were. The block does not read the output
  clock.
\<close>

theorem interruption_stops_all_and_zeroes_cursor:
  "stopCalls (interruptAll s) = stopCalls s @ sourcesRef s
   \<and> set (sourcesRef s) \<subseteq> set (stopCalls (interruptAll s))
   \<and> sourcesRef (interruptAll s) = []
   \<and> nextStartTimeRef (interruptAll s) = 0"
  by simp

text \<open>
  C2 as stated says that the cursor is reset to the output clock's current time. In the
  sample run a message that carries only the interruption flag is handled at clock time 6
  with the cursor at 8: the handler completes, and the cursor afterwards is 0, not 6.
\<close>

theorem interruption_cursor_not_now_counterexample:
  "nextStartTimeRef exampleActive = 8
   \<and> fst (onmessage 0 6 0 interruptMsg exampleActive) = None
   \<and> nextStartTimeRef (snd (onmessage 0 6 0 interruptMsg exampleActive)) = 0
   \<and> nextStartTimeRef (snd (onmessage 0 6 0 interruptMsg exampleActive)) \<noteq> 6"
  by (simp add: onmessage_def audioData_def interruptMsg_def exampleActive_def initial_def
      startSession_def onopen_def Let_def truthy_str_def)

text \<open>
  C3. An enqueue that follows the interruption block starts its buffer at the output
  clock's reading of that moment, whatever the cursor and the live set were before the
  interruption. The output clock of an audio context starts at 0 and never runs backwards,
  so its reading is not negative.
\<close>

theorem enqueue_after_interrupt_starts_now:
  assumes "0 \<le> now'"
  shows "newStarts (interruptAll s) (enqueue now' d' (interruptAll s)) = [now']"
  using assms by (simp add: newStarts_enqueue)

theorem enqueue_after_interrupt_starts_now_witness:
  "(0::real) \<le> 6 \<and> nextStartTimeRef exampleActive = 8
   \<and> newStarts (interruptAll exampleActive) (enqueue 6 2 (interruptAll exampleActive)) = [6]"
proof -
  have h: "(0::real) \<le> 6" by simp
  have c: "nextStartTimeRef exampleActive = 8"
    by (simp add: exampleActive_def initial_def startSession_def onopen_def Let_def)
  from enqueue_after_interrupt_starts_now [OF h, of exampleActive 2]
  show ?thesis using c by simp
qed

section \<open>Session lifecycle: teardown and start\<close>

lemma stopSession_simps [simp]:
  "closeCalls (stopSession s)
     = closeCalls s @ (case sessionRef s of Some h \<Rightarrow> [h] | None \<Rightarrow> [])"
  "sessionRef (stopSession s) = None"
  "clearIntervalCalls (stopSession s)
     = clearIntervalCalls s @
         (if truthy_num (frameIntervalRef s)
          then (case frameIntervalRef s of Some t \<Rightarrow> [t] | None \<Rightarrow> []) else [])"
  "frameIntervalRef (stopSession s)
     = (if truthy_num (frameIntervalRef s) then None else frameIntervalRef s)"
  "stopCalls (stopSession s) = stopCalls s @ sourcesRef s"
  "sourcesRef (stopSession s) = []"
  "isActive (stopSession s) = False"
  "isConnecting (stopSession s) = isConnecting s"
  "micStreams (stopSession s) = micStreams s"
  "nextStartTimeRef (stopSession s) = nextStartTimeRef s"
  "connectCalls (stopSession s) = connectCalls s"
  "startCalls (stopSession s) = startCalls s"
  "nodeCount (stopSession s) = nodeCount s"
  by (simp_all add: stopSession_def Let_def split: option.splits)

lemma startSession_simps [simp]:
  "closeCalls (startSession mic conn s) = closeCalls s"
  "clearIntervalCalls (startSession mic conn s) = clearIntervalCalls s"
  "stopCalls (startSession mic conn s) = stopCalls s"
  "sourcesRef (startSession mic conn s) = sourcesRef s"
  "frameIntervalRef (startSession mic conn s) = frameIntervalRef s"
  "isActive (startSession mic conn s) = isActive s"
  "nextStartTimeRef (startSession mic conn s) = nextStartTimeRef s"
  "startCalls (startSession mic conn s) = startCalls s"
  "nodeCount (startSession mic conn s) = nodeCount s"
  by (simp_all add: startSession_def startFailed_def Let_def split: outcome.splits)

lemma onopen_simps [simp]:
  "nextStartTimeRef (onopen tid s) = nextStartTimeRef s"
  "startCalls (onopen tid s) = startCalls s"
  "nodeCount (onopen tid s) = nodeCount s"
  "sourcesRef (onopen tid s) = sourcesRef s"
  by (simp_all add: onopen_def Let_def)

lemma exampleActive_eq:
  "exampleActive = \<lparr>isActive = True, isConnecting = False, currentLesson = 0,
    transcriptions = [],
    trackingMode = digital, sessionRef = Some 1, audioContextRef = True,
    sourcesRef = [0], nextStartTimeRef = 8, frameIntervalRef = Some 4,
    closeCalls = [], clearIntervalCalls = [], startCalls = [(0, 5)],
    stopCalls = [], nodeCount = 1, micStreams = [7], connectCalls = 1,
    sendCalls = [], consoleErrors = []\<rparr>"
  by (simp add: exampleActive_def initial_def startSession_def onopen_def enqueue_def
      set_add_def Let_def)

text \<open>
  C4 as stated says that \<open>stopSession\<close> releases the microphone stream. In the sample run
  the stream 7 obtained by \<open>startSession\<close> is still live after \<open>stopSession\<close>.
\<close>

theorem stopSession_keeps_microphone_counterexample:
  "micStreams exampleActive = [7] \<and> micStreams (stopSession exampleActive) = [7]"
  by (simp add: exampleActive_eq)

text \<open>
  C4 (as the code has it). From every state, \<open>stopSession\<close> closes the session handle when
  there is one and forgets it, cancels the timer whose non-zero handle is stored and
  forgets it, calls \<open>stop()\<close> on every tracked playback buffer and empties the live set,
  and clears the active flag. It leaves the acquired microphone streams as they were.
\<close>

theorem stopSession_teardown:
  "closeCalls (stopSession s)
     = closeCalls s @ (case sessionRef s of Some h \<Rightarrow> [h] | None \<Rightarrow> [])
   \<and> sessionRef (stopSession s) = None
   \<and> clearIntervalCalls (stopSession s)
       = clearIntervalCalls s @
           (if truthy_num (frameIntervalRef s)
            then (case frameIntervalRef s of Some t \<Rightarrow> [t] | None \<Rightarrow> []) else [])
   \<and> \<not> truthy_num (frameIntervalRef (stopSession s))
   \<and> stopCalls (stopSession s) = stopCalls s @ sourcesRef s
   \<and> sourcesRef (stopSession s) = []
   \<and> \<not> isActive (stopSession s)
   \<and> micStreams (stopSession s) = micStreams s"
  by (simp add: truthy_num_def)

text \<open>
  C6. From every state, a second \<open>stopSession\<close> right after a first one changes nothing:
  the whole state, the session handle, the timer handle, the live set, the active flag and
  the logs of calls made on browser objects included, is the state after the first call.
\<close>

theorem stopSession_idempotent: "stopSession (stopSession s) = stopSession s"
  by (simp add: stopSession_def Let_def truthy_num_def split: option.splits)

text \<open>
  C5 as stated says that \<open>startSession\<close>, invoked while a session is active, tears the
  prior session down before the new one is connecting. In the sample run, \<open>startSession\<close>
  on the active session closes no channel, cancels no timer and stops no buffer; it acquires
  a second microphone stream and overwrites the session handle.
\<close>

theorem startSession_while_active_no_teardown_counterexample:
  "isActive exampleActive \<and> sessionRef exampleActive = Some 1
   \<and> frameIntervalRef exampleActive = Some 4 \<and> sourcesRef exampleActive = [0]
   \<and> isConnecting (startSession (Resolved 8) (Resolved 2) exampleActive)
   \<and> closeCalls (startSession (Resolved 8) (Resolved 2) exampleActive) = []
   \<and> clearIntervalCalls (startSession (Resolved 8) (Resolved 2) exampleActive) = []
   \<and> stopCalls (startSession (Resolved 8) (Resolved 2) exampleActive) = []
   \<and> micStreams (startSession (Resolved 8) (Resolved 2) exampleActive) = [7, 8]
   \<and> sessionRef (startSession (Resolved 8) (Resolved 2) exampleActive) = Some 2"
  by (simp add: exampleActive_eq startSession_def Let_def)

text \<open>
  C5 (as the code has it). \<open>startSession\<close> performs no teardown: it closes no channel,
  cancels no timer, stops no buffer and leaves the live set, the timer handle and the
  active flag as they were; it releases no device: every microphone stream held before is
  still held, after it the stream just acquired, if any. The start/stop button, its only caller, does not invoke it
  while a session is active or connecting: no channel is opened and no device acquired by
  a click then; when active (and not connecting) the click runs \<open>stopSession\<close>.
  Selecting a mode opens no channel, and stops a running session.
\<close>

theorem startSession_no_teardown_button_gated:
  "closeCalls (startSession mic conn s) = closeCalls s
   \<and> clearIntervalCalls (startSession mic conn s) = clearIntervalCalls s
   \<and> stopCalls (startSession mic conn s) = stopCalls s
   \<and> sourcesRef (startSession mic conn s) = sourcesRef s
   \<and> frameIntervalRef (startSession mic conn s) = frameIntervalRef s
   \<and> isActive (startSession mic conn s) = isActive s
   \<and> micStreams (startSession mic conn s)
       = micStreams s @ (case mic of Resolved stream \<Rightarrow> [stream] | Rejected err \<Rightarrow> [])
   \<and> (isActive s \<or> isConnecting s \<longrightarrow>
        connectCalls (sessionButton mic conn s) = connectCalls s
        \<and> micStreams (sessionButton mic conn s) = micStreams s
        \<and> isConnecting (sessionButton mic conn s) = isConnecting s)
   \<and> (isActive s \<and> \<not> isConnecting s \<longrightarrow> sessionButton mic conn s = stopSession s)
   \<and> connectCalls (selectMode mode s) = connectCalls s
   \<and> (isActive s \<longrightarrow> selectMode mode s = (stopSession s)\<lparr>trackingMode := mode\<rparr>)"
proof -
  have mic: "micStreams (startSession mic conn s)
       = micStreams s @ (case mic of Resolved stream \<Rightarrow> [stream] | Rejected err \<Rightarrow> [])"
    by (simp add: startSession_def startFailed_def Let_def split: outcome.splits)
  have button: "isActive s \<or> isConnecting s \<longrightarrow>
        connectCalls (sessionButton mic conn s) = connectCalls s
        \<and> micStreams (sessionButton mic conn s) = micStreams s
        \<and> isConnecting (sessionButton mic conn s) = isConnecting s"
    by (auto simp: sessionButton_def)
  have stop: "isActive s \<and> \<not> isConnecting s \<longrightarrow> sessionButton mic conn s = stopSession s"
    by (simp add: sessionButton_def)
  have mode: "connectCalls (selectMode mode s) = connectCalls s"
    "isActive s \<longrightarrow> selectMode mode s = (stopSession s)\<lparr>trackingMode := mode\<rparr>"
    by (simp_all add: selectMode_def Let_def)
  from mic button stop mode show ?thesis by simp
qed

theorem startSession_no_teardown_button_gated_witness:
  "isActive exampleActive \<and> \<not> isConnecting exampleActive
   \<and> connectCalls (sessionButton (Resolved 8) (Resolved 2) exampleActive) = 1
   \<and> sessionButton (Resolved 8) (Resolved 2) exampleActive = stopSession exampleActive
   \<and> closeCalls (sessionButton (Resolved 8) (Resolved 2) exampleActive) = [1]
   \<and> selectMode physical exampleActive = (stopSession exampleActive)\<lparr>trackingMode := physical\<rparr>"
proof -
  have a: "isActive exampleActive" and c: "\<not> isConnecting exampleActive"
    and n: "connectCalls exampleActive = 1" and r: "sessionRef exampleActive = Some 1"
    and cc: "closeCalls exampleActive = []"
    by (simp_all add: exampleActive_eq)
  from startSession_no_teardown_button_gated
         [of "Resolved 8" "Resolved 2" exampleActive physical]
  show ?thesis using a c n r cc by simp
qed

text \<open>
  C8 as stated says that the error is surfaced. After a start from the initial state in
  which \<open>getUserMedia\<close> is rejected, everything the component renders is what it rendered
  before the start; the error went to the console only.
\<close>

theorem device_failure_not_rendered_counterexample:
  "rendered (startSession (Rejected ''NotAllowedError'') (Resolved 1) initial)
     = rendered initial
   \<and> consoleErrors (startSession (Rejected ''NotAllowedError'') (Resolved 1) initial)
       = [''Failed to start session: NotAllowedError'']"
  by (simp add: rendered_def startSession_def startFailed_def initial_def Let_def)

text \<open>
  C8 (as the code has it). When \<open>getUserMedia\<close> is rejected during a start from a session
  that is not active, the session ends neither active nor connecting, \<open>ai.live.connect\<close>
  is not called, no session handle is stored, no stream is acquired, and the error is
  written to the console with \<open>console.error\<close>. It is not shown to the user: from an
  idle session the component renders after the failed start what it rendered before it.
\<close>

theorem startSession_device_failure:
  assumes "\<not> isActive s"
  shows "\<not> isActive (startSession (Rejected err) conn s)
     \<and> \<not> isConnecting (startSession (Rejected err) conn s)
     \<and> connectCalls (startSession (Rejected err) conn s) = connectCalls s
     \<and> sessionRef (startSession (Rejected err) conn s) = sessionRef s
     \<and> micStreams (startSession (Rejected err) conn s) = micStreams s
     \<and> consoleErrors (startSession (Rejected err) conn s)
         = consoleErrors s @ [''Failed to start session: '' @ err]
     \<and> (\<not> isConnecting s \<longrightarrow>
          rendered (startSession (Rejected err) conn s) = rendered s)"
  using assms by (simp add: rendered_def startSession_def startFailed_def Let_def)

theorem startSession_device_failure_witness:
  "\<not> isActive initial \<and> \<not> isConnecting initial
   \<and> \<not> isActive (startSession (Rejected ''NotAllowedError'') (Resolved 1) initial)
   \<and> \<not> isConnecting (startSession (Rejected ''NotAllowedError'') (Resolved 1) initial)
   \<and> connectCalls (startSession (Rejected ''NotAllowedError'') (Resolved 1) initial) = 0
   \<and> sessionRef (startSession (Rejected ''NotAllowedError'') (Resolved 1) initial) = None
   \<and> consoleErrors (startSession (Rejected ''NotAllowedError'') (Resolved 1) initial)
       = [''Failed to start session: NotAllowedError'']
   \<and> rendered (startSession (Rejected ''NotAllowedError'') (Resolved 1) initial)
       = (False, False, 0, [], digital)"
proof -
  have h: "\<not> isActive initial" and c: "\<not> isConnecting initial"
    by (simp_all add: initial_def)
  from startSession_device_failure [OF h, of "''NotAllowedError''" "Resolved 1"]
  show ?thesis using h c by (simp add: initial_def rendered_def)
qed




section \<open>Frame sampler: polling a source without a frame\<close>

text \<open>
  C9 as stated says that \<open>getFrame\<close> returns null when the video is not yet ready. With
  the video and canvas elements present and the video without a frame, \<open>getFrame\<close>
  resizes the canvas to 0 by 0 and returns the text after the comma of the data URL
  \<open>data:,\<close>: the empty string, not null.
\<close>

theorem getFrame_not_ready_counterexample:
  "CameraTracker_getFrame ''data:,'' (Some videoNotReady) (Some freshCanvas)
     = (Str [], Some \<lparr>canvas_width = 0, canvas_height = 0, has2d = True\<rparr>)
   \<and> fst (CameraTracker_getFrame ''data:,'' (Some videoNotReady) (Some freshCanvas)) \<noteq> Null"
  by (simp add: CameraTracker_getFrame_def videoNotReady_def freshCanvas_def index_js_def
      Let_def)

text \<open>
  C9 (as the code has it). \<open>getFrame\<close> of the camera tracker returns null when the video
  element or the canvas element is absent, and when the canvas gives no 2D context. With
  both elements present and a context, whether or not the video has a frame, it returns
  the part of the canvas's data URL after the first comma, which is never null.
  \<open>getFrame\<close> of the drawing canvas returns null when its canvas element is absent, and
  an absent component gives \<open>undefined\<close>. When the polled value is null, undefined or the
  empty string, the sampler's tick sends nothing and leaves the whole state, the timer
  handle included, as it was. No path of \<open>getFrame\<close> or of the tick raises.
\<close>

theorem getFrame_null_cases_and_silent_tick:
  "fst (CameraTracker_getFrame url None c) = Null
   \<and> fst (CameraTracker_getFrame url v None) = Null
   \<and> fst (CameraTracker_getFrame url (Some video) (Some canvas))
       = (if has2d canvas then index_js (split_char CHR '','' url) 1 else Null)
   \<and> index_js (split_char CHR '','' url) 1 \<noteq> Null
   \<and> DrawingCanvas_getFrame url None = Null
   \<and> polledFrame mode None None = Undefined
   \<and> frameTick Null s = s
   \<and> frameTick Undefined s = s
   \<and> frameTick (Str []) s = s"
  by (simp add: CameraTracker_getFrame_def DrawingCanvas_getFrame_def polledFrame_def
      frameTick_def truthy_def index_js_def Let_def split: option.splits)

end
